theory Spec2Isabelle
  imports Main
begin

section \<open>Values and handles\<close>

text \<open>
  The module \<^verbatim>\<open>lib/main.js\<close> keeps one table, \<^verbatim>\<open>_winID2panelIDs\<close>, from
  \<^verbatim>\<open>BrowserWindow.id\<close> to the array of panel IDs hosted by that window, and routes
  messages to the window that hosts a panel.

  JavaScript values that travel through \<^verbatim>\<open>panel.send\<close>: the message and the
  variadic arguments are untyped in the source, so they are modelled by a datatype of
  values. A caller's function is named by a number; the object made by
  \<^verbatim>\<open>ipcPlus.option({sessionId, waitForReply, timeout})\<close> carries its three fields
  (a field that was not given is \<^verbatim>\<open>undefined\<close>).
\<close>

type_synonym panelID = string

text \<open>
  Modelled from the spec: the class \<^verbatim>\<open>ErrorNoPanel\<close> of \<^verbatim>\<open>lib/common.js\<close> and
  the session ids of \<^verbatim>\<open>electron-ipc-plus\<close> are not part of the sources at hand.
  \<open>JErrorNoPanel panelID message\<close> is \<^verbatim>\<open>new ErrorNoPanel(panelID, message)\<close>, ``an
  object identifying the error kind "no such panel", carrying panelID and
  messageName''. \<open>JSessionId tag n\<close> is a correlation identifier of the Session
  Tracker: the string made of an owner tag and a serial number.
\<close>

datatype jsval =
    JUndefined
  | JNull
  | JBool bool
  | JNum int
  | JStr string
  | JFunction nat
  | JSessionId string nat
  | JErrorNoPanel string jsval
  | JIpcOption (opt_sessionId: jsval) (opt_waitForReply: jsval) (opt_timeout: jsval)

text \<open>The \<^verbatim>\<open>typeof\<close> operator; a session id is a string.\<close>

fun typeof :: "jsval \<Rightarrow> string" where
  "typeof JUndefined = ''undefined''"
| "typeof (JBool b) = ''boolean''"
| "typeof (JNum n) = ''number''"
| "typeof (JStr s) = ''string''"
| "typeof (JSessionId tag n) = ''string''"
| "typeof (JFunction f) = ''function''"
| "typeof _ = ''object''"

text \<open>JavaScript truthiness, as used by \<^verbatim>\<open>opts && opts.waitForReply\<close>.\<close>

fun truthy :: "jsval \<Rightarrow> bool" where
  "truthy JUndefined = False"
| "truthy JNull = False"
| "truthy (JBool b) = b"
| "truthy (JNum n) = (n \<noteq> 0)"
| "truthy (JStr s) = (s \<noteq> [])"
| "truthy (JSessionId tag n) = True"
| "truthy _ = True"

text \<open>A \<^verbatim>\<open>BrowserWindow\<close> handle; the only field the module reads is \<^verbatim>\<open>id\<close>.\<close>

datatype browser_window = BrowserWindow (win_id: nat)

text \<open>
  \<^verbatim>\<open>BrowserWindow.fromId(id)\<close> of Electron: the open window with that id, or
  \<^verbatim>\<open>null\<close>. The set of open windows is the environment's.
\<close>

definition fromId :: "nat set \<Rightarrow> nat \<Rightarrow> browser_window option" where
  "fromId wins k = (if k \<in> wins then Some (BrowserWindow k) else None)"

section \<open>The registry\<close>

text \<open>
  \<^verbatim>\<open>_winID2panelIDs\<close> is a JavaScript object whose keys are window ids. A
  \<^verbatim>\<open>for ... in\<close> loop visits integer keys in ascending order, so the table is an
  association list kept in ascending key order.
\<close>

type_synonym registry = "(nat \<times> panelID list) list"


text \<open>\<^verbatim>\<open>_winID2panelIDs[winID]\<close>: the array, or \<^verbatim>\<open>undefined\<close> (\<open>None\<close>).\<close>

definition reg_get :: "registry \<Rightarrow> nat \<Rightarrow> panelID list option" where
  "reg_get reg winID = map_of reg winID"



text \<open>\<^verbatim>\<open>Array.prototype.indexOf\<close>: the first index of the element, or -1.\<close>

fun indexOf :: "'a list \<Rightarrow> 'a \<Rightarrow> int" where
  "indexOf [] x = - 1"
| "indexOf (y # ys) x =
     (if y = x then 0
      else (let i = indexOf ys x in if i = - 1 then - 1 else i + 1))"


text \<open>
  \<^verbatim>\<open>panel.findWindow\<close>: the first entry, in key order, whose array contains the
  panel ID decides; the result is \<^verbatim>\<open>BrowserWindow.fromId\<close> of its key, which is
  \<^verbatim>\<open>null\<close> when that window is no longer open.
\<close>

fun findWindow :: "nat set \<Rightarrow> registry \<Rightarrow> panelID \<Rightarrow> browser_window option" where
  "findWindow wins [] panelID = None"
| "findWindow wins (e # rest) panelID =
     (if indexOf (snd e) panelID \<noteq> - 1 then fromId wins (fst e)
      else findWindow wins rest panelID)"

text \<open>\<^verbatim>\<open>panel.getPanels\<close>.\<close>

definition getPanels :: "registry \<Rightarrow> browser_window \<Rightarrow> panelID list option" where
  "getPanels reg win = reg_get reg (win_id win)"

section \<open>Diagnostics and effects\<close>

text \<open>
  What a call does to the outside is recorded as a list of effects, in order:
  a call of \<^verbatim>\<open>console.error\<close> (one constructor per message of the source), a
  \<^verbatim>\<open>win.webContents.send\<close> to a window, a \<^verbatim>\<open>sender.send\<close> to the web contents that
  sent a request, and the call of a caller's function.
\<close>

datatype log_entry =
    MessageNotString jsval panelID
  | SendNoResponse jsval panelID
  | PanelAlreadyExists panelID nat
  | RemoveWindowNotFound panelID nat
  | RemovePanelNotFound panelID nat
  | ClearWindowNotFound nat

datatype effect =
    ConsoleError log_entry
  | WebContentsSend nat "jsval list"
  | SenderSend nat "jsval list"
  | CallFunction nat "jsval list"


section \<open>Control messages and the window life cycle\<close>







subsection \<open>The module among its events\<close>

text \<open>
  The registry changes only in the handlers above, and every handler runs to its end
  before the next event. The state of the world that they see: the windows that are
  open (what \<^verbatim>\<open>BrowserWindow.fromId\<close> answers from), the windows on which the
  \<^verbatim>\<open>'closed'\<close> listener is installed, and the registry. When the module is loaded
  the registry is empty and no listener is installed yet: the module installs it on
  the windows created from then on, not on the windows that are open already.
\<close>

record world =
  windows :: "nat set"
  closedHooks :: "nat set"
  registry :: registry







section \<open>Sending to a panel\<close>

subsection \<open>Collaborators\<close>

text \<open>
  Electron, as far as sending needs it: the open windows, the pairs of a window and
  an argument list for which \<^verbatim>\<open>win.webContents.send\<close> returns \<^verbatim>\<open>false\<close>
  (the only value the module compares the result with), and the web contents for which
  \<^verbatim>\<open>isDestroyed()\<close> holds.
\<close>

record electron =
  openWindows :: "nat set"
  sendReturnsFalse :: "(nat \<times> jsval list) set"
  destroyedContents :: "nat set"

text \<open>
  A reply callback held by a session: a function of the caller, or the closure that
  \<^verbatim>\<open>_renderer2panelOpts\<close> builds, which captures \<^verbatim>\<open>event.sender\<close> and
  \<^verbatim>\<open>opts.sessionId\<close>.
\<close>

datatype callback = Reply nat | RelayReply nat jsval

record session =
  s_id :: jsval
  s_message :: jsval
  s_owner :: string
  s_callback :: callback
  s_timeout :: jsval

text \<open>
  The state of \<^verbatim>\<open>electron-ipc-plus\<close>: its \<^verbatim>\<open>id\<close> (the prefix of the channel
  names) and the session tracker.
\<close>

record ipc_plus =
  ipc_id :: string
  nextSessionId :: nat
  sessions :: "session list"

text \<open>
  Modelled from the spec: \<^verbatim>\<open>ipcPlus.internal._newSession\<close> is not part of the
  sources at hand. The Session Tracker ``assigns correlation identifiers to pending
  request/reply exchanges''; a session is the record ``sessionID, originating message
  name, owner tag, reply callback, timeout'', and
  \<^verbatim>\<open>newSession(messageName, ownerTag, replyCallback, timeoutMs) -> sessionID\<close>.
  The identifier is the owner tag with a serial number that was not used before.
\<close>

definition newSession ::
  "ipc_plus \<Rightarrow> jsval \<Rightarrow> string \<Rightarrow> callback \<Rightarrow> jsval \<Rightarrow> jsval \<times> ipc_plus" where
  "newSession ipc message prefix fn timeout =
     (let sessionId = JSessionId prefix (nextSessionId ipc) in
      (sessionId,
       ipc\<lparr>nextSessionId := Suc (nextSessionId ipc),
           sessions := sessions ipc @
             [\<lparr>s_id = sessionId, s_message = message, s_owner = prefix,
               s_callback = fn, s_timeout = timeout\<rparr>]\<rparr>))"

text \<open>
  Modelled from the spec: \<^verbatim>\<open>ipcPlus.internal._popReplyAndTimeout\<close> is not part of
  the sources at hand. ``Trailing arguments may optionally end with a reply callback
  and/or a timeout value; these are detected positionally (last or second-to-last
  argument)''; the documentation of \<^verbatim>\<open>panel.send\<close> adds that the callback is the
  last or the second last argument, that the timeout is the last argument, and that
  the timeout is 5000 when none is given. The result is the callback, the timeout and
  the arguments without them, or \<^verbatim>\<open>null\<close> when no callback is found there. The
  argument list is taken back to front.
\<close>

fun popReplyAndTimeout_rev :: "jsval list \<Rightarrow> (nat \<times> jsval \<times> jsval list) option" where
  "popReplyAndTimeout_rev (JNum t # JFunction f # r) = Some (f, JNum t, rev r)"
| "popReplyAndTimeout_rev (JFunction f # r) = Some (f, JNum 5000, rev r)"
| "popReplyAndTimeout_rev r = None"

definition popReplyAndTimeout :: "jsval list \<Rightarrow> (nat \<times> jsval \<times> jsval list) option" where
  "popReplyAndTimeout args = popReplyAndTimeout_rev (rev args)"

text \<open>
  Modelled from the spec: \<^verbatim>\<open>ipcPlus.internal._popOptions\<close> is not part of the
  sources at hand; it ``extracts trailing options from a variadic argument list''. The
  options are the object made by \<^verbatim>\<open>ipcPlus.option\<close>, when it is the last argument.
\<close>

fun popOptions_rev :: "jsval list \<Rightarrow> (jsval \<times> jsval list) option" where
  "popOptions_rev (JIpcOption sid wfr tmo # r) = Some (JIpcOption sid wfr tmo, rev r)"
| "popOptions_rev r = None"

definition popOptions :: "jsval list \<Rightarrow> (jsval \<times> jsval list) option" where
  "popOptions args = popOptions_rev (rev args)"

subsection \<open>The dispatcher\<close>

text \<open>
  \<^verbatim>\<open>_sendToPanel\<close>. The result is what the function returns
  (\<^verbatim>\<open>undefined\<close> or the session id), the state of \<^verbatim>\<open>electron-ipc-plus\<close>
  afterwards, and the effects in order.
\<close>

definition sendToPanel ::
  "electron \<Rightarrow> ipc_plus \<Rightarrow> browser_window \<Rightarrow> panelID \<Rightarrow> jsval \<Rightarrow> jsval list \<Rightarrow>
     jsval \<times> ipc_plus \<times> effect list" where
  "sendToPanel env ipc win panelID message args =
     (if typeof message \<noteq> ''string''
      then (JUndefined, ipc, [ConsoleError (MessageNotString message panelID)])
      else
        (case popReplyAndTimeout args of
           None \<Rightarrow>
             (let args' = [JStr (ipc_id ipc @ '':main2panel''), JStr panelID, message] @ args in
              (JUndefined, ipc,
               WebContentsSend (win_id win) args' #
                 (if (win_id win, args') \<in> sendReturnsFalse env
                  then [ConsoleError (SendNoResponse message panelID)] else [])))
         | Some (reply, timeout, rest) \<Rightarrow>
             (let (sessionId, ipc') =
                    newSession ipc message (panelID @ ''@main'') (Reply reply) timeout;
                  args' = [JStr (ipc_id ipc @ '':main2panel''), JStr panelID, message] @ rest @
                    [JIpcOption sessionId (JBool True) timeout]
              in (sessionId, ipc', [WebContentsSend (win_id win) args']))))"

text \<open>\<^verbatim>\<open>panel.send\<close>.\<close>

definition send ::
  "electron \<Rightarrow> registry \<Rightarrow> ipc_plus \<Rightarrow> panelID \<Rightarrow> jsval \<Rightarrow> jsval list \<Rightarrow>
     jsval \<times> ipc_plus \<times> effect list" where
  "send env reg ipc panelID message args =
     (case findWindow (openWindows env) reg panelID of
        None \<Rightarrow>
          (case popReplyAndTimeout args of
             Some (reply, timeout, rest) \<Rightarrow>
               (JUndefined, ipc, [CallFunction reply [JErrorNoPanel panelID message]])
           | None \<Rightarrow> (JUndefined, ipc, []))
      | Some win \<Rightarrow> sendToPanel env ipc win panelID message args)"

text \<open>
  What calling a session's reply callback with \<open>replyArgs\<close> does. For the closure
  of \<^verbatim>\<open>_renderer2panelOpts\<close> this is its body: nothing when the sender is destroyed,
  otherwise one \<^verbatim>\<open>sender.send\<close> on the reply channel, the arguments followed by
  \<^verbatim>\<open>ipcPlus.option({sessionId: opts.sessionId})\<close>.
\<close>

definition invoke :: "electron \<Rightarrow> ipc_plus \<Rightarrow> callback \<Rightarrow> jsval list \<Rightarrow> effect list" where
  "invoke env ipc cb replyArgs =
     (case cb of
        Reply f \<Rightarrow> [CallFunction f replyArgs]
      | RelayReply sender sessionId \<Rightarrow>
          (if sender \<in> destroyedContents env then []
           else [SenderSend sender
                   ([JStr (ipc_id ipc @ '':reply'')] @ replyArgs @
                    [JIpcOption sessionId JUndefined JUndefined])]))"

text \<open>
  \<^verbatim>\<open>_renderer2panelOpts\<close>, the handler of the renderer-to-panel channel;
  \<open>sender\<close> is \<^verbatim>\<open>event.sender\<close>.
\<close>

definition renderer2panelOpts ::
  "electron \<Rightarrow> registry \<Rightarrow> ipc_plus \<Rightarrow> nat \<Rightarrow> panelID \<Rightarrow> jsval \<Rightarrow> jsval list \<Rightarrow>
     ipc_plus \<times> effect list" where
  "renderer2panelOpts env reg ipc sender panelID message args =
     (if length args = 0 then snd (send env reg ipc panelID message args)
      else
        (case popOptions args of
           None \<Rightarrow> snd (send env reg ipc panelID message args)
         | Some (opts, rest) \<Rightarrow>
             (if truthy (opt_waitForReply opts)
              then
                (let (sessionIdAtMain, ipc') =
                       newSession ipc message (panelID @ ''@main'')
                         (RelayReply sender (opt_sessionId opts)) (opt_timeout opts)
                 in snd (send env reg ipc' panelID message
                           (rest @ [JIpcOption sessionIdAtMain (JBool True) (opt_timeout opts)])))
              else snd (send env reg ipc panelID message rest))))"

section \<open>The registry: basic facts\<close>

lemma indexOf_ge: "- 1 \<le> indexOf xs x"
  by (induction xs) (auto simp: Let_def)

lemma indexOf_none_iff: "indexOf xs x = - 1 \<longleftrightarrow> x \<notin> set xs"
proof (induction xs)
  case Nil
  show ?case by simp
next
  case (Cons y ys)
  have "- 1 \<le> indexOf ys x" by (rule indexOf_ge)
  with Cons show ?case by (auto simp: Let_def)
qed









lemma findWindow_Some:
  "findWindow wins reg p = Some bw \<Longrightarrow>
     \<exists>ps. (win_id bw, ps) \<in> set reg \<and> p \<in> set ps \<and> win_id bw \<in> wins"
  by (induction reg) (auto simp: indexOf_none_iff fromId_def split: if_splits)
















section \<open>Adding a panel\<close>





section \<open>Removing a panel\<close>













lemma reg_get_key: "reg_get reg w = Some ps \<Longrightarrow> w \<in> fst ` set reg"
  by (auto simp: reg_get_def dest: map_of_SomeD intro: rev_image_eqI)











section \<open>Uniqueness of panel IDs\<close>




section \<open>Closing a window\<close>



section \<open>Sending: what a call does\<close>

lemma pop_callback_last:
  "popReplyAndTimeout (args @ [JFunction cb]) = Some (cb, JNum 5000, args)"
  by (simp add: popReplyAndTimeout_def)

lemma pop_callback_timeout:
  "popReplyAndTimeout (args @ [JFunction cb, JNum t]) = Some (cb, JNum t, args)"
  by (simp add: popReplyAndTimeout_def)

lemma pop_after_option:
  "popReplyAndTimeout (rest @ [JIpcOption sid wfr tmo]) = None"
  by (simp add: popReplyAndTimeout_def)

lemma popOptions_last:
  "popOptions (rest @ [JIpcOption sid wfr tmo]) = Some (JIpcOption sid wfr tmo, rest)"
  by (simp add: popOptions_def)

lemma send_unowned_callback:
  "findWindow (openWindows env) reg p = None \<Longrightarrow>
   popReplyAndTimeout args = Some (cb, t, rest) \<Longrightarrow>
     send env reg ipc p message args =
       (JUndefined, ipc, [CallFunction cb [JErrorNoPanel p message]])"
  by (simp add: send_def)

lemma send_unowned_plain:
  "findWindow (openWindows env) reg p = None \<Longrightarrow> popReplyAndTimeout args = None \<Longrightarrow>
     send env reg ipc p message args = (JUndefined, ipc, [])"
  by (simp add: send_def)

lemma send_owned:
  "findWindow (openWindows env) reg p = Some win \<Longrightarrow>
     send env reg ipc p message args = sendToPanel env ipc win p message args"
  by (simp add: send_def)

lemma sendToPanel_nonstring:
  "typeof message \<noteq> ''string'' \<Longrightarrow>
     sendToPanel env ipc win p message args =
       (JUndefined, ipc, [ConsoleError (MessageNotString message p)])"
  by (simp add: sendToPanel_def)

lemma sendToPanel_reply:
  "typeof message = ''string'' \<Longrightarrow> popReplyAndTimeout args = Some (cb, t, rest) \<Longrightarrow>
     sendToPanel env ipc win p message args =
       (JSessionId (p @ ''@main'') (nextSessionId ipc),
        ipc\<lparr>nextSessionId := Suc (nextSessionId ipc),
            sessions := sessions ipc @
              [\<lparr>s_id = JSessionId (p @ ''@main'') (nextSessionId ipc), s_message = message,
                s_owner = p @ ''@main'', s_callback = Reply cb, s_timeout = t\<rparr>]\<rparr>,
        [WebContentsSend (win_id win)
           ([JStr (ipc_id ipc @ '':main2panel''), JStr p, message] @ rest @
            [JIpcOption (JSessionId (p @ ''@main'') (nextSessionId ipc)) (JBool True) t])])"
  by (simp add: sendToPanel_def newSession_def Let_def)

lemma sendToPanel_oneway:
  "typeof message = ''string'' \<Longrightarrow> popReplyAndTimeout args = None \<Longrightarrow>
     sendToPanel env ipc win p message args =
       (JUndefined, ipc,
        WebContentsSend (win_id win)
          ([JStr (ipc_id ipc @ '':main2panel''), JStr p, message] @ args) #
        (if (win_id win, [JStr (ipc_id ipc @ '':main2panel''), JStr p, message] @ args)
              \<in> sendReturnsFalse env
         then [ConsoleError (SendNoResponse message p)] else []))"
  by (simp add: sendToPanel_def Let_def)

lemma send_keeps_sessions_oneway:
  "popReplyAndTimeout args = None \<Longrightarrow> fst (snd (send env reg ipc p message args)) = ipc"
  by (cases "findWindow (openWindows env) reg p"; cases "typeof message = ''string''")
     (simp_all add: send_unowned_plain send_owned sendToPanel_nonstring sendToPanel_oneway)

subsection \<open>A panel that no window hosts\<close>

text \<open>
  C2. A call of \<^verbatim>\<open>panel.send\<close> for which \<^verbatim>\<open>findWindow\<close> returns
  \<^verbatim>\<open>null\<close>. With a function as the last argument, or as the second last before a
  number, the call does one thing: it calls that function once, with the
  \<^verbatim>\<open>ErrorNoPanel\<close> made from the panel ID and the message; it sends nothing, opens no
  session and returns \<^verbatim>\<open>undefined\<close>. When the trailing arguments hold no callback
  it does nothing at all and returns \<^verbatim>\<open>undefined\<close>.
\<close>

theorem send_no_panel:
  assumes "findWindow (openWindows env) reg p = None"
  shows "send env reg ipc p message (args @ [JFunction cb]) =
           (JUndefined, ipc, [CallFunction cb [JErrorNoPanel p message]]) \<and>
         send env reg ipc p message (args @ [JFunction cb, JNum t]) =
           (JUndefined, ipc, [CallFunction cb [JErrorNoPanel p message]]) \<and>
         (popReplyAndTimeout args = None \<longrightarrow>
            send env reg ipc p message args = (JUndefined, ipc, []))"
  using assms
  by (simp add: send_unowned_callback [OF _ pop_callback_last]
      send_unowned_callback [OF _ pop_callback_timeout] send_unowned_plain)

theorem send_no_panel_witness:
  "findWindow (openWindows \<lparr>openWindows = {1}, sendReturnsFalse = {},
       destroyedContents = {}\<rparr>) [(1, [''a''])] ''b'' = None \<and>
   send \<lparr>openWindows = {1}, sendReturnsFalse = {}, destroyedContents = {}\<rparr>
       [(1, [''a''])] \<lparr>ipc_id = ''ipc-plus'', nextSessionId = 0, sessions = []\<rparr>
       ''b'' (JStr ''hello'') [JNum 7, JFunction 3] =
     (JUndefined, \<lparr>ipc_id = ''ipc-plus'', nextSessionId = 0, sessions = []\<rparr>,
      [CallFunction 3 [JErrorNoPanel ''b'' (JStr ''hello'')]]) \<and>
   popReplyAndTimeout [JNum 7] = None \<and>
   send \<lparr>openWindows = {1}, sendReturnsFalse = {}, destroyedContents = {}\<rparr>
       [(1, [''a''])] \<lparr>ipc_id = ''ipc-plus'', nextSessionId = 0, sessions = []\<rparr>
       ''b'' (JStr ''hello'') [JNum 7] =
     (JUndefined, \<lparr>ipc_id = ''ipc-plus'', nextSessionId = 0, sessions = []\<rparr>, [])"
  using send_no_panel [of "\<lparr>openWindows = {1}, sendReturnsFalse = {},
       destroyedContents = {}\<rparr>" "[(1, [''a''])]" "''b''"
       "\<lparr>ipc_id = ''ipc-plus'', nextSessionId = 0, sessions = []\<rparr>" "JStr ''hello''"
       "[JNum 7]" 3 0]
  by (simp add: popReplyAndTimeout_def)

subsection \<open>A request with a reply\<close>

text \<open>
  C3. A call \<^verbatim>\<open>send(p, msg, ...args, replyCallback, timeout)\<close> with a message
  of type string to a panel for which \<^verbatim>\<open>findWindow\<close> returns a window: one session
  is added, owned by \<^verbatim>\<open>p@main\<close> and holding the callback and the timeout; one
  message goes to that window, made of the channel, the panel ID, the message, the
  arguments and the options with the session id and \<^verbatim>\<open>waitForReply: true\<close>; the
  call returns the session id.
\<close>

theorem send_with_reply:
  assumes "findWindow (openWindows env) reg p = Some win"
    and "typeof message = ''string''"
  shows "send env reg ipc p message (args @ [JFunction cb, JNum t]) =
           (JSessionId (p @ ''@main'') (nextSessionId ipc),
            ipc\<lparr>nextSessionId := Suc (nextSessionId ipc),
                sessions := sessions ipc @
                  [\<lparr>s_id = JSessionId (p @ ''@main'') (nextSessionId ipc),
                    s_message = message, s_owner = p @ ''@main'',
                    s_callback = Reply cb, s_timeout = JNum t\<rparr>]\<rparr>,
            [WebContentsSend (win_id win)
               ([JStr (ipc_id ipc @ '':main2panel''), JStr p, message] @ args @
                [JIpcOption (JSessionId (p @ ''@main'') (nextSessionId ipc))
                   (JBool True) (JNum t)])])"
  using assms
  by (simp add: send_owned sendToPanel_reply [OF _ pop_callback_timeout])

theorem send_with_reply_witness:
  "findWindow (openWindows \<lparr>openWindows = {1}, sendReturnsFalse = {},
       destroyedContents = {}\<rparr>) [(1, [''a''])] ''a'' = Some (BrowserWindow 1) \<and>
   typeof (JStr ''hello'') = ''string'' \<and>
   send \<lparr>openWindows = {1}, sendReturnsFalse = {}, destroyedContents = {}\<rparr>
       [(1, [''a''])] \<lparr>ipc_id = ''ipc-plus'', nextSessionId = 4, sessions = []\<rparr>
       ''a'' (JStr ''hello'') [JNum 7, JBool True, JFunction 3, JNum 200] =
     (JSessionId ''a@main'' 4,
      \<lparr>ipc_id = ''ipc-plus'', nextSessionId = 5,
        sessions = [\<lparr>s_id = JSessionId ''a@main'' 4, s_message = JStr ''hello'',
          s_owner = ''a@main'', s_callback = Reply 3, s_timeout = JNum 200\<rparr>]\<rparr>,
      [WebContentsSend 1 [JStr ''ipc-plus:main2panel'', JStr ''a'', JStr ''hello'', JNum 7,
         JBool True, JIpcOption (JSessionId ''a@main'' 4) (JBool True) (JNum 200)]])"
  using send_with_reply [of "\<lparr>openWindows = {1}, sendReturnsFalse = {},
       destroyedContents = {}\<rparr>" "[(1, [''a''])]" "''a''" "BrowserWindow 1"
       "JStr ''hello''" "\<lparr>ipc_id = ''ipc-plus'', nextSessionId = 4, sessions = []\<rparr>"
       "[JNum 7, JBool True]" 3 200]
  by (simp add: fromId_def)


lemma relay_unfold:
  assumes "truthy wfr"
  shows "renderer2panelOpts env reg ipc sender p message (rest @ [JIpcOption osid wfr tmo]) =
    snd (send env reg
      (ipc\<lparr>nextSessionId := Suc (nextSessionId ipc),
           sessions := sessions ipc @
             [\<lparr>s_id = JSessionId (p @ ''@main'') (nextSessionId ipc), s_message = message,
               s_owner = p @ ''@main'', s_callback = RelayReply sender osid,
               s_timeout = tmo\<rparr>]\<rparr>)
      p message
      (rest @ [JIpcOption (JSessionId (p @ ''@main'') (nextSessionId ipc)) (JBool True) tmo]))"
  using assms
  by (simp add: renderer2panelOpts_def popOptions_last newSession_def Let_def)

subsection \<open>The relay from a renderer\<close>

text \<open>
  C4. A renderer-to-panel request whose last argument is an options object with a
  truthy \<^verbatim>\<open>waitForReply\<close>, for a panel hosted by a window. The handler adds one
  session, whose callback is the closure over the sender and the sender's own session
  id; a message of type string is sent on to the window with the new session id.
  Whenever that callback is called with reply arguments (the session tracker does so
  once per session), it sends one message to the sender on the reply channel, the
  arguments followed by options that carry the sender's session id, whatever id the
  new session got; when the sender is destroyed at that time it sends nothing.
\<close>

theorem relay_reply:
  assumes "truthy wfr"
    and "findWindow (openWindows env) reg p = Some win"
  shows "fst (renderer2panelOpts env reg ipc sender p message
                (rest @ [JIpcOption osid wfr tmo])) =
           ipc\<lparr>nextSessionId := Suc (nextSessionId ipc),
               sessions := sessions ipc @
                 [\<lparr>s_id = JSessionId (p @ ''@main'') (nextSessionId ipc),
                   s_message = message, s_owner = p @ ''@main'',
                   s_callback = RelayReply sender osid, s_timeout = tmo\<rparr>]\<rparr> \<and>
         (typeof message = ''string'' \<longrightarrow>
            snd (renderer2panelOpts env reg ipc sender p message
                   (rest @ [JIpcOption osid wfr tmo])) =
              WebContentsSend (win_id win)
                ([JStr (ipc_id ipc @ '':main2panel''), JStr p, message] @ rest @
                 [JIpcOption (JSessionId (p @ ''@main'') (nextSessionId ipc))
                    (JBool True) tmo]) #
              (if (win_id win,
                    [JStr (ipc_id ipc @ '':main2panel''), JStr p, message] @ rest @
                    [JIpcOption (JSessionId (p @ ''@main'') (nextSessionId ipc))
                       (JBool True) tmo]) \<in> sendReturnsFalse env
               then [ConsoleError (SendNoResponse message p)] else [])) \<and>
         (sender \<notin> destroyedContents env' \<longrightarrow>
            invoke env' ipc' (RelayReply sender osid) replyArgs =
              [SenderSend sender
                 ([JStr (ipc_id ipc' @ '':reply'')] @ replyArgs @
                  [JIpcOption osid JUndefined JUndefined])]) \<and>
         (sender \<in> destroyedContents env' \<longrightarrow>
            invoke env' ipc' (RelayReply sender osid) replyArgs = [])"
proof -
  let ?sid = "JSessionId (p @ ''@main'') (nextSessionId ipc)"
  let ?ipc1 = "ipc\<lparr>nextSessionId := Suc (nextSessionId ipc),
      sessions := sessions ipc @
        [\<lparr>s_id = ?sid, s_message = message, s_owner = p @ ''@main'',
          s_callback = RelayReply sender osid, s_timeout = tmo\<rparr>]\<rparr>"
  let ?args = "rest @ [JIpcOption ?sid (JBool True) tmo]"
  let ?wire = "[JStr (ipc_id ipc @ '':main2panel''), JStr p, message] @ ?args"
  have unf: "renderer2panelOpts env reg ipc sender p message (rest @ [JIpcOption osid wfr tmo]) =
      snd (send env reg ?ipc1 p message ?args)"
    using assms(1) by (rule relay_unfold)
  have pop: "popReplyAndTimeout ?args = None" by (rule pop_after_option)
  have a: "fst (snd (send env reg ?ipc1 p message ?args)) = ?ipc1"
    using pop by (rule send_keeps_sessions_oneway)
  have b: "snd (snd (send env reg ?ipc1 p message ?args)) =
      WebContentsSend (win_id win) ?wire #
      (if (win_id win, ?wire) \<in> sendReturnsFalse env
       then [ConsoleError (SendNoResponse message p)] else [])"
    if str: "typeof message = ''string''"
    using str pop assms(2) by (simp add: send_owned sendToPanel_oneway)
  have c: "sender \<notin> destroyedContents env' \<longrightarrow>
      invoke env' ipc' (RelayReply sender osid) replyArgs =
        [SenderSend sender ([JStr (ipc_id ipc' @ '':reply'')] @ replyArgs @
           [JIpcOption osid JUndefined JUndefined])]"
    by (simp add: invoke_def)
  have d: "sender \<in> destroyedContents env' \<longrightarrow>
      invoke env' ipc' (RelayReply sender osid) replyArgs = []"
    by (simp add: invoke_def)
  show ?thesis
    unfolding unf using a b c d by simp
qed


theorem relay_reply_witness:
  "truthy (JBool True) \<and>
   findWindow (openWindows \<lparr>openWindows = {1}, sendReturnsFalse = {},
       destroyedContents = {}\<rparr>) [(1, [''a''])] ''a'' = Some (BrowserWindow 1) \<and>
   typeof (JStr ''hello'') = ''string'' \<and>
   renderer2panelOpts
       \<lparr>openWindows = {1}, sendReturnsFalse = {}, destroyedContents = {}\<rparr>
       [(1, [''a''])] \<lparr>ipc_id = ''ipc-plus'', nextSessionId = 4, sessions = []\<rparr>
       9 ''a'' (JStr ''hello'')
       [JNum 7, JIpcOption (JSessionId ''a@renderer'' 2) (JBool True) (JNum 300)] =
     (\<lparr>ipc_id = ''ipc-plus'', nextSessionId = 5,
        sessions = [\<lparr>s_id = JSessionId ''a@main'' 4, s_message = JStr ''hello'',
          s_owner = ''a@main'', s_callback = RelayReply 9 (JSessionId ''a@renderer'' 2),
          s_timeout = JNum 300\<rparr>]\<rparr>,
      [WebContentsSend 1 [JStr ''ipc-plus:main2panel'', JStr ''a'', JStr ''hello'', JNum 7,
         JIpcOption (JSessionId ''a@main'' 4) (JBool True) (JNum 300)]]) \<and>
   9 \<notin> destroyedContents \<lparr>openWindows = {1}, sendReturnsFalse = {},
       destroyedContents = {}\<rparr> \<and>
   invoke \<lparr>openWindows = {1}, sendReturnsFalse = {}, destroyedContents = {}\<rparr>
       \<lparr>ipc_id = ''ipc-plus'', nextSessionId = 5, sessions = []\<rparr>
       (RelayReply 9 (JSessionId ''a@renderer'' 2)) [JNull, JStr ''Hi''] =
     [SenderSend 9 [JStr ''ipc-plus:reply'', JNull, JStr ''Hi'',
        JIpcOption (JSessionId ''a@renderer'' 2) JUndefined JUndefined]] \<and>
   9 \<in> destroyedContents \<lparr>openWindows = {}, sendReturnsFalse = {},
       destroyedContents = {9}\<rparr> \<and>
   invoke \<lparr>openWindows = {}, sendReturnsFalse = {}, destroyedContents = {9}\<rparr>
       \<lparr>ipc_id = ''ipc-plus'', nextSessionId = 5, sessions = []\<rparr>
       (RelayReply 9 (JSessionId ''a@renderer'' 2)) [JNull, JStr ''Hi''] = []"
proof -
  have w: "findWindow (openWindows \<lparr>openWindows = {1}, sendReturnsFalse = {},
       destroyedContents = {}\<rparr>) [(1, [''a''])] ''a'' = Some (BrowserWindow 1)"
    by (simp add: fromId_def)
  have t: "truthy (JBool True)" by simp
  note live = relay_reply [OF t w, where
      env' = "\<lparr>openWindows = {1}, sendReturnsFalse = {}, destroyedContents = {}\<rparr>"
      and ipc = "\<lparr>ipc_id = ''ipc-plus'', nextSessionId = 4, sessions = []\<rparr>"
      and sender = 9 and message = "JStr ''hello''" and rest = "[JNum 7]"
      and osid = "JSessionId ''a@renderer'' 2" and tmo = "JNum 300"
      and ipc' = "\<lparr>ipc_id = ''ipc-plus'', nextSessionId = 5, sessions = []\<rparr>"
      and replyArgs = "[JNull, JStr ''Hi'']"]
  note dead = relay_reply [OF t w, where
      env' = "\<lparr>openWindows = {}, sendReturnsFalse = {}, destroyedContents = {9}\<rparr>"
      and ipc = "\<lparr>ipc_id = ''ipc-plus'', nextSessionId = 4, sessions = []\<rparr>"
      and sender = 9 and message = "JStr ''hello''" and rest = "[JNum 7]"
      and osid = "JSessionId ''a@renderer'' 2" and tmo = "JNum 300"
      and ipc' = "\<lparr>ipc_id = ''ipc-plus'', nextSessionId = 5, sessions = []\<rparr>"
      and replyArgs = "[JNull, JStr ''Hi'']"]
  show ?thesis
    using w live dead by (simp add: prod_eq_iff)
qed

subsection \<open>A message that is not a string\<close>

text \<open>
  C8 says that a message that is not a string is rejected and logged. A number sent to
  a panel that no window hosts, without a callback: the call ends without any effect,
  so nothing is logged.
\<close>

theorem send_nonstring_counterexample:
  "typeof (JNum 5) \<noteq> ''string'' \<and>
   send \<lparr>openWindows = {}, sendReturnsFalse = {}, destroyedContents = {}\<rparr>
       [] \<lparr>ipc_id = ''ipc-plus'', nextSessionId = 0, sessions = []\<rparr>
       ''a'' (JNum 5) [] =
     (JUndefined, \<lparr>ipc_id = ''ipc-plus'', nextSessionId = 0, sessions = []\<rparr>, [])"
  by (simp add: send_def popReplyAndTimeout_def)

text \<open>
  C8, as the code has it. A message that is not a string is never transmitted and
  opens no session. When a window hosts the panel the call is rejected: it logs that
  the message must be a string and does nothing else. When no window hosts the panel
  nothing is logged.
\<close>

theorem send_nonstring:
  assumes "typeof message \<noteq> ''string''"
  shows "(\<forall>w a. WebContentsSend w a \<notin> set (snd (snd (send env reg ipc p message args)))) \<and>
         fst (snd (send env reg ipc p message args)) = ipc \<and>
         (\<forall>win. findWindow (openWindows env) reg p = Some win \<longrightarrow>
            send env reg ipc p message args =
              (JUndefined, ipc, [ConsoleError (MessageNotString message p)])) \<and>
         (findWindow (openWindows env) reg p = None \<longrightarrow>
            (\<forall>l. ConsoleError l \<notin> set (snd (snd (send env reg ipc p message args)))))"
proof (cases "findWindow (openWindows env) reg p")
  case None
  then show ?thesis
    by (cases "popReplyAndTimeout args") (auto simp: send_def)
next
  case (Some win)
  with assms show ?thesis
    by (simp add: send_owned sendToPanel_nonstring)
qed

theorem send_nonstring_witness:
  "typeof (JNum 5) \<noteq> ''string'' \<and>
   findWindow (openWindows \<lparr>openWindows = {1}, sendReturnsFalse = {},
       destroyedContents = {}\<rparr>) [(1, [''a''])] ''a'' = Some (BrowserWindow 1) \<and>
   send \<lparr>openWindows = {1}, sendReturnsFalse = {}, destroyedContents = {}\<rparr>
       [(1, [''a''])] \<lparr>ipc_id = ''ipc-plus'', nextSessionId = 0, sessions = []\<rparr>
       ''a'' (JNum 5) [JStr ''x''] =
     (JUndefined, \<lparr>ipc_id = ''ipc-plus'', nextSessionId = 0, sessions = []\<rparr>,
      [ConsoleError (MessageNotString (JNum 5) ''a'')])"
proof -
  have t: "typeof (JNum 5) \<noteq> ''string''" by simp
  have w: "findWindow (openWindows \<lparr>openWindows = {1}, sendReturnsFalse = {},
       destroyedContents = {}\<rparr>) [(1, [''a''])] ''a'' = Some (BrowserWindow 1)"
    by (simp add: fromId_def)
  from send_nonstring [OF t, where
      env = "\<lparr>openWindows = {1}, sendReturnsFalse = {}, destroyedContents = {}\<rparr>"
      and reg = "[(1, [''a''])]"
      and ipc = "\<lparr>ipc_id = ''ipc-plus'', nextSessionId = 0, sessions = []\<rparr>"
      and p = "''a''" and args = "[JStr ''x'']"] w t
  show ?thesis by blast
qed

subsection \<open>Errors and the reply callback\<close>

text \<open>
  C9 says that every error of a send with a reply callback reaches the callback. A
  number sent, with a reply callback, to a panel that a window hosts: the type check
  logs the message and returns; the callback is not called.
\<close>

theorem send_error_counterexample:
  "popReplyAndTimeout [JFunction 3] = Some (3, JNum 5000, []) \<and>
   send \<lparr>openWindows = {1}, sendReturnsFalse = {}, destroyedContents = {}\<rparr>
       [(1, [''a''])] \<lparr>ipc_id = ''ipc-plus'', nextSessionId = 0, sessions = []\<rparr>
       ''a'' (JNum 5) [JFunction 3] =
     (JUndefined, \<lparr>ipc_id = ''ipc-plus'', nextSessionId = 0, sessions = []\<rparr>,
      [ConsoleError (MessageNotString (JNum 5) ''a'')])"
  by (simp add: send_def sendToPanel_def popReplyAndTimeout_def fromId_def)

text \<open>
  C9, as the code has it. With a reply callback among the trailing arguments: when no
  window hosts the panel, the callback is called once with the \<^verbatim>\<open>ErrorNoPanel\<close>
  and nothing else happens; when a window hosts the panel and the message is not a
  string, the error is logged only.
\<close>

theorem send_error_delivery:
  assumes "popReplyAndTimeout args = Some (cb, t, rest)"
  shows "(findWindow (openWindows env) reg p = None \<longrightarrow>
            send env reg ipc p message args =
              (JUndefined, ipc, [CallFunction cb [JErrorNoPanel p message]])) \<and>
         (\<forall>win. findWindow (openWindows env) reg p = Some win \<and>
              typeof message \<noteq> ''string'' \<longrightarrow>
            send env reg ipc p message args =
              (JUndefined, ipc, [ConsoleError (MessageNotString message p)]))"
  using assms
  by (simp add: send_unowned_callback send_owned sendToPanel_nonstring)

theorem send_error_delivery_witness:
  "popReplyAndTimeout [JNum 7, JFunction 3, JNum 100] = Some (3, JNum 100, [JNum 7]) \<and>
   findWindow (openWindows \<lparr>openWindows = {1}, sendReturnsFalse = {},
       destroyedContents = {}\<rparr>) [(1, [''a''])] ''b'' = None \<and>
   send \<lparr>openWindows = {1}, sendReturnsFalse = {}, destroyedContents = {}\<rparr>
       [(1, [''a''])] \<lparr>ipc_id = ''ipc-plus'', nextSessionId = 0, sessions = []\<rparr>
       ''b'' (JStr ''hello'') [JNum 7, JFunction 3, JNum 100] =
     (JUndefined, \<lparr>ipc_id = ''ipc-plus'', nextSessionId = 0, sessions = []\<rparr>,
      [CallFunction 3 [JErrorNoPanel ''b'' (JStr ''hello'')]])"
proof -
  have pop: "popReplyAndTimeout [JNum 7, JFunction 3, JNum 100] = Some (3, JNum 100, [JNum 7])"
    by (simp add: popReplyAndTimeout_def)
  have none: "findWindow (openWindows \<lparr>openWindows = {1}, sendReturnsFalse = {},
       destroyedContents = {}\<rparr>) [(1, [''a''])] ''b'' = None"
    by simp
  from send_error_delivery [OF pop, where
      env = "\<lparr>openWindows = {1}, sendReturnsFalse = {}, destroyedContents = {}\<rparr>"
      and reg = "[(1, [''a''])]" and p = "''b''"
      and ipc = "\<lparr>ipc_id = ''ipc-plus'', nextSessionId = 0, sessions = []\<rparr>"
      and message = "JStr ''hello''"] pop none
  show ?thesis by blast
qed

subsection \<open>The lookup comes before the type check\<close>

text \<open>
  C10. A message that is not a string, sent with a reply callback to a panel that no
  window hosts: the callback is called with the \<^verbatim>\<open>ErrorNoPanel\<close>; the result is
  not what the type check of \<^verbatim>\<open>_sendToPanel\<close> gives, and nothing is logged.
\<close>

theorem send_lookup_first:
  assumes "typeof message \<noteq> ''string''"
    and "findWindow (openWindows env) reg p = None"
    and "popReplyAndTimeout args = Some (cb, t, rest)"
  shows "send env reg ipc p message args =
           (JUndefined, ipc, [CallFunction cb [JErrorNoPanel p message]]) \<and>
         send env reg ipc p message args \<noteq> sendToPanel env ipc win p message args \<and>
         (\<forall>l. ConsoleError l \<notin> set (snd (snd (send env reg ipc p message args))))"
  using assms
  by (simp add: send_unowned_callback sendToPanel_nonstring)

theorem send_lookup_first_witness:
  "typeof (JNum 5) \<noteq> ''string'' \<and>
   findWindow (openWindows \<lparr>openWindows = {1}, sendReturnsFalse = {},
       destroyedContents = {}\<rparr>) [(1, [''a''])] ''b'' = None \<and>
   popReplyAndTimeout [JFunction 3] = Some (3, JNum 5000, []) \<and>
   send \<lparr>openWindows = {1}, sendReturnsFalse = {}, destroyedContents = {}\<rparr>
       [(1, [''a''])] \<lparr>ipc_id = ''ipc-plus'', nextSessionId = 0, sessions = []\<rparr>
       ''b'' (JNum 5) [JFunction 3] =
     (JUndefined, \<lparr>ipc_id = ''ipc-plus'', nextSessionId = 0, sessions = []\<rparr>,
      [CallFunction 3 [JErrorNoPanel ''b'' (JNum 5)]])"
proof -
  have t: "typeof (JNum 5) \<noteq> ''string''" by simp
  have none: "findWindow (openWindows \<lparr>openWindows = {1}, sendReturnsFalse = {},
       destroyedContents = {}\<rparr>) [(1, [''a''])] ''b'' = None"
    by simp
  have pop: "popReplyAndTimeout [JFunction 3] = Some (3, JNum 5000, [])"
    by (simp add: popReplyAndTimeout_def)
  from send_lookup_first [OF t none pop, where
      ipc = "\<lparr>ipc_id = ''ipc-plus'', nextSessionId = 0, sessions = []\<rparr>"] t none pop
  show ?thesis by blast
qed

end
